theory Spec2Isabelle
  imports Complex_Main
begin

section \<open>Data model\<close>

text \<open>
  The program is a command-line ATM (\<^verbatim>\<open>atm.js\<close>): every command is one action that reads
  the session file, talks to a MySQL store through \<^verbatim>\<open>db.execute\<close> and reports an error by
  printing the message of whatever was thrown. The tables are modelled as lists of rows in
  insertion order; a \<^verbatim>\<open>SELECT ... WHERE\<close> is a filter over the rows and an
  \<^verbatim>\<open>UPDATE ... WHERE\<close> rewrites every row that satisfies the condition.
\<close>

text \<open>
  JavaScript numbers. \<^verbatim>\<open>Number(amount)\<close> yields a finite number, one of the two
  infinities, or NaN.

  Modelled from the spec: balances and amounts are decimal currency amounts, held in
  DECIMAL columns of a schema (\<^verbatim>\<open>model/atm_db.sql\<close>) that is not among the sources. The
  runtime computes on them as doubles and the store rounds what it is sent to the scale of
  its column. On decimals within the precision of a double the value that reaches the
  column is the exact decimal sum or difference, and that value is what \<open>js_add\<close> and
  \<open>js_sub\<close> return on finite arguments. The double itself before the store rounds it
  (0.1 + 0.2) and sums beyond 2^53 differ from the values here.
\<close>

datatype jsnum = NaN | PInf | NInf | Fin rat

fun isNaN :: "jsnum \<Rightarrow> bool" where
  "isNaN NaN = True"
| "isNaN _ = False"

text \<open>\<^verbatim>\<open>a <= b\<close>: false as soon as one side is NaN.\<close>

fun js_le :: "jsnum \<Rightarrow> jsnum \<Rightarrow> bool" where
  "js_le NaN _ = False"
| "js_le _ NaN = False"
| "js_le NInf _ = True"
| "js_le _ PInf = True"
| "js_le (Fin a) (Fin b) = (a \<le> b)"
| "js_le PInf _ = False"
| "js_le (Fin _) NInf = False"

text \<open>\<^verbatim>\<open>a > b\<close>: false as soon as one side is NaN.\<close>

fun js_gt :: "jsnum \<Rightarrow> jsnum \<Rightarrow> bool" where
  "js_gt NaN _ = False"
| "js_gt _ NaN = False"
| "js_gt NInf _ = False"
| "js_gt _ PInf = False"
| "js_gt (Fin a) (Fin b) = (b < a)"
| "js_gt PInf _ = True"
| "js_gt (Fin _) NInf = True"

fun js_neg :: "jsnum \<Rightarrow> jsnum" where
  "js_neg NaN = NaN"
| "js_neg PInf = NInf"
| "js_neg NInf = PInf"
| "js_neg (Fin a) = Fin (- a)"

fun js_add :: "jsnum \<Rightarrow> jsnum \<Rightarrow> jsnum" where
  "js_add NaN _ = NaN"
| "js_add _ NaN = NaN"
| "js_add PInf NInf = NaN"
| "js_add NInf PInf = NaN"
| "js_add PInf _ = PInf"
| "js_add _ PInf = PInf"
| "js_add NInf _ = NInf"
| "js_add _ NInf = NInf"
| "js_add (Fin a) (Fin b) = Fin (a + b)"

definition js_sub :: "jsnum \<Rightarrow> jsnum \<Rightarrow> jsnum" where
  "js_sub a b = js_add a (js_neg b)"

text \<open>
  A promise that nobody awaits. \<^verbatim>\<open>bcrypt.compare(pin, hash)\<close> called without a callback
  returns one; as an object it is truthy whatever value it will resolve to.
\<close>

datatype 'a promise = Promise 'a

fun truthy :: "'a promise \<Rightarrow> bool" where
  "truthy (Promise _) = True"

text \<open>Rows of table \<^verbatim>\<open>accounts\<close>: id, name, pin (the bcrypt hash), balance.\<close>

record account =
  acc_id :: nat
  acc_name :: string
  acc_pin :: string
  acc_balance :: rat

datatype txn_type = Deposit | Withdraw | TransferOut | TransferIn

text \<open>
  Rows of table \<^verbatim>\<open>transactions\<close>: id, account_id, type, amount, target_id (NULL unless
  the row belongs to a transfer). The column \<^verbatim>\<open>created_at\<close> is filled by the store
  and only printed; it is left out.
\<close>

record txn =
  txn_id :: nat
  txn_account :: nat
  txn_kind :: txn_type
  txn_amount :: rat
  txn_target :: "nat option"

text \<open>The content of \<^verbatim>\<open>session/session.json\<close>.\<close>

record session =
  sess_id :: nat
  sess_name :: string

text \<open>
  Everything a command can observe or change: the two tables with their AUTO_INCREMENT
  counters, the session file (\<open>None\<close> when the file does not exist) and the module
  variable \<^verbatim>\<open>failedLoginAttempts\<close>.
\<close>

record atm =
  accounts :: "account list"
  acc_auto_inc :: nat
  transactions :: "txn list"
  txn_auto_inc :: nat
  session_file :: "session option"
  failedLoginAttempts :: nat

text \<open>
  What an action reports. The first eight are the messages the code throws or prints
  itself; \<open>TypeError\<close> is what the runtime throws when \<^verbatim>\<open>accounts[0]\<close> is
  \<^verbatim>\<open>undefined\<close> and gets destructured; \<open>StoreError\<close> is whatever a rejected
  \<^verbatim>\<open>db.execute\<close> throws. \<open>AccountNotFound\<close> is the kind the specification names for
  a session whose account is gone; no statement of the program raises it.
\<close>

datatype error =
    PinRequired
  | InvalidPinFormat
  | LockedOut
  | InvalidCredentials
  | NotAuthenticated
  | InvalidAmount
  | InsufficientFunds
  | TargetNotFound
  | TypeError
  | StoreError
  | AccountNotFound

section \<open>The store\<close>

text \<open>
  Every \<^verbatim>\<open>await db.execute(...)\<close> may throw. An action takes a predicate \<open>fails\<close> on
  the position of the statement within the action (0 for the first \<^verbatim>\<open>db.execute\<close> it
  reaches, 1 for the second, ...); a statement whose position satisfies it throws and has
  no effect. Nothing in the program opens a transaction or rolls one back, so the effect
  of the statements before it stays.
\<close>

definition select_accounts_by_id :: "nat \<Rightarrow> atm \<Rightarrow> account list" where
  "select_accounts_by_id i s = filter (\<lambda>a. acc_id a = i) (accounts s)"

definition select_accounts_by_name :: "string \<Rightarrow> atm \<Rightarrow> account list" where
  "select_accounts_by_name n s = filter (\<lambda>a. acc_name a = n) (accounts s)"

definition select_txn_by_id :: "nat \<Rightarrow> atm \<Rightarrow> txn list" where
  "select_txn_by_id i s = filter (\<lambda>t. txn_id t = i) (transactions s)"

text \<open>\<^verbatim>\<open>UPDATE accounts SET balance = v WHERE P\<close>, once the store has accepted it.\<close>

definition set_balance :: "(account \<Rightarrow> bool) \<Rightarrow> rat \<Rightarrow> atm \<Rightarrow> atm" where
  "set_balance P v s =
     s\<lparr>accounts := map (\<lambda>a. if P a then a\<lparr>acc_balance := v\<rparr> else a) (accounts s)\<rparr>"

text \<open>\<^verbatim>\<open>INSERT INTO transactions\<close>, once accepted: the new row takes the next id.\<close>

definition add_txn :: "nat \<Rightarrow> txn_type \<Rightarrow> rat \<Rightarrow> nat option \<Rightarrow> atm \<Rightarrow> atm" where
  "add_txn a k v t s =
     s\<lparr>transactions := transactions s @
          [\<lparr>txn_id = txn_auto_inc s, txn_account = a, txn_kind = k,
            txn_amount = v, txn_target = t\<rparr>],
       txn_auto_inc := Suc (txn_auto_inc s)\<rparr>"

text \<open>\<^verbatim>\<open>INSERT INTO accounts (name, pin, balance)\<close>, once accepted.\<close>

definition add_account :: "string \<Rightarrow> string \<Rightarrow> rat \<Rightarrow> atm \<Rightarrow> atm" where
  "add_account n h v s =
     s\<lparr>accounts := accounts s @
          [\<lparr>acc_id = acc_auto_inc s, acc_name = n, acc_pin = h, acc_balance = v\<rparr>],
       acc_auto_inc := Suc (acc_auto_inc s)\<rparr>"

text \<open>
  Modelled from the spec: the schema file \<^verbatim>\<open>model/atm_db.sql\<close> is not among the sources;
  the specification gives \<^verbatim>\<open>balance DECIMAL\<close> and \<^verbatim>\<open>amount DECIMAL\<close>. A DECIMAL column
  holds no infinity and no NaN, so a write whose value is not finite is rejected by the
  store like any other failing statement. The specification also states that the
  uniqueness of names is assumed but not enforced: the INSERT of \<^verbatim>\<open>register\<close> is not
  refused for a name that is already in the table.
\<close>

definition db_update_balance :: "bool \<Rightarrow> (account \<Rightarrow> bool) \<Rightarrow> jsnum \<Rightarrow> atm \<Rightarrow> atm option" where
  "db_update_balance throws P v s =
     (if throws then None
      else case v of Fin r \<Rightarrow> Some (set_balance P r s) | _ \<Rightarrow> None)"

text \<open>
  The amount of a transaction row is bound as a number by transfer and as the text of the
  command line by deposit and withdraw. \<open>db_insert_txn\<close> takes the decimal the amount
  column makes of what was bound, \<open>None\<close> when the store refuses it. For a number that
  is \<open>decimal_of_number\<close>. What the store makes of a text is not in the sources: the
  actions that bind one take it as the function \<open>reads\<close>.
\<close>

definition decimal_of_number :: "jsnum \<Rightarrow> rat option" where
  "decimal_of_number v = (case v of Fin r \<Rightarrow> Some r | _ \<Rightarrow> None)"

definition db_insert_txn ::
  "bool \<Rightarrow> nat \<Rightarrow> txn_type \<Rightarrow> rat option \<Rightarrow> nat option \<Rightarrow> atm \<Rightarrow> (nat \<times> atm) option" where
  "db_insert_txn throws a k v t s =
     (if throws then None
      else case v of Some r \<Rightarrow> Some (txn_auto_inc s, add_txn a k r t s) | None \<Rightarrow> None)"

section \<open>The commands\<close>

subsection \<open>register\<close>

text \<open>
  \<^verbatim>\<open>pin.length !== 6 || !/^\d{6}$/.test(pin)\<close>. The second argument of an action that
  prompts for a PIN is \<open>None\<close> when the flag \<^verbatim>\<open>-p\<close> is absent, else the text typed at
  the prompt. \<open>hash\<close> stands for \<^verbatim>\<open>bcrypt.hash(pin, 10)\<close>.
\<close>

definition is_digit :: "char \<Rightarrow> bool" where
  "is_digit c = (c \<in> set ''0123456789'')"

definition pin_format_ok :: "string \<Rightarrow> bool" where
  "pin_format_ok pin = (length pin = 6 \<and> list_all is_digit pin)"

definition register ::
  "(string \<Rightarrow> string) \<Rightarrow> (nat \<Rightarrow> bool) \<Rightarrow> string \<Rightarrow> string option \<Rightarrow> atm \<Rightarrow> (error + unit) \<times> atm" where
  "register hash fails name pin_opt s =
     (case pin_opt of
        None \<Rightarrow> (Inl PinRequired, s)
      | Some pin \<Rightarrow>
          if \<not> pin_format_ok pin then (Inl InvalidPinFormat, s)
          else if fails 0 then (Inl StoreError, s)
          else (Inr (), add_account name (hash pin) 0 s))"

subsection \<open>login\<close>

text \<open>
  \<open>verify\<close> stands for the comparison bcrypt performs. The action calls
  \<^verbatim>\<open>bcrypt.compare(pin, accounts[0].pin)\<close> without \<^verbatim>\<open>await\<close>, so \<^verbatim>\<open>match\<close> is the
  promise, and \<^verbatim>\<open>!match\<close> tests the promise.
\<close>

definition bcrypt_compare :: "(string \<Rightarrow> string \<Rightarrow> bool) \<Rightarrow> string \<Rightarrow> string \<Rightarrow> bool promise" where
  "bcrypt_compare verify pin h = Promise (verify pin h)"

definition login ::
  "(string \<Rightarrow> string \<Rightarrow> bool) \<Rightarrow> (nat \<Rightarrow> bool) \<Rightarrow> string \<Rightarrow> string option \<Rightarrow> atm
     \<Rightarrow> (error + nat \<times> string \<times> rat) \<times> atm" where
  "login verify fails name pin_opt s =
     (if 3 \<le> failedLoginAttempts s then (Inl LockedOut, s)
      else
       (case pin_opt of
          None \<Rightarrow> (Inl PinRequired, s)
        | Some pin \<Rightarrow>
            if fails 0 then (Inl StoreError, s)
            else
             (case select_accounts_by_name name s of
                [] \<Rightarrow> (Inl InvalidCredentials,
                       s\<lparr>failedLoginAttempts := Suc (failedLoginAttempts s)\<rparr>)
              | a # _ \<Rightarrow>
                  let match = bcrypt_compare verify pin (acc_pin a) in
                  if \<not> truthy match
                  then (Inl InvalidCredentials,
                        s\<lparr>failedLoginAttempts := Suc (failedLoginAttempts s)\<rparr>)
                  else (Inr (acc_id a, acc_name a, acc_balance a),
                        s\<lparr>failedLoginAttempts := 0,
                          session_file :=
                            Some \<lparr>sess_id = acc_id a, sess_name = acc_name a\<rparr>\<rparr>))))"

text \<open>Several login attempts one after the other, within one run of the module.\<close>

fun logins ::
  "(string \<Rightarrow> string \<Rightarrow> bool) \<Rightarrow> ((nat \<Rightarrow> bool) \<times> string \<times> string option) list \<Rightarrow> atm
     \<Rightarrow> (error + nat \<times> string \<times> rat) list \<times> atm" where
  "logins verify [] s = ([], s)"
| "logins verify ((fails, name, pin_opt) # rest) s =
     (let (r, s1) = login verify fails name pin_opt s;
          (rs, s2) = logins verify rest s1
      in (r # rs, s2))"

subsection \<open>check-balance\<close>

definition check_balance :: "(nat \<Rightarrow> bool) \<Rightarrow> atm \<Rightarrow> (error + nat \<times> string \<times> rat) \<times> atm" where
  "check_balance fails s =
     (case session_file s of
        None \<Rightarrow> (Inl NotAuthenticated, s)
      | Some sess \<Rightarrow>
          if fails 0 then (Inl StoreError, s)
          else
           (case select_accounts_by_id (sess_id sess) s of
              [] \<Rightarrow> (Inl TypeError, s)
            | a # _ \<Rightarrow> (Inr (acc_id a, acc_name a, acc_balance a), s)))"

subsection \<open>deposit, withdraw, transfer\<close>

text \<open>
  \<open>amount\<close> is the argument of the command line as typed and \<open>amountNum\<close> is
  \<^verbatim>\<open>Number(amount)\<close>, which the runtime computes: the actions take both. Deposit and
  withdraw update the balance with \<open>amountNum\<close> and bind the text \<open>amount\<close> to their
  INSERT; transfer uses \<open>amountNum\<close> throughout. The id of a target account is taken as
  the number \<^verbatim>\<open>options.to\<close> denotes.

  \<^verbatim>\<open>isNaN(amountNum) || amountNum <= 0\<close>
\<close>

definition bad_amount :: "jsnum \<Rightarrow> bool" where
  "bad_amount amountNum = (isNaN amountNum \<or> js_le amountNum (Fin 0))"

text \<open>
  Statements of deposit: 0 SELECT account, 1 UPDATE balance, 2 INSERT row (amount bound as
  text), 3 SELECT row.
\<close>

definition deposit ::
  "(string \<Rightarrow> rat option) \<Rightarrow> (nat \<Rightarrow> bool) \<Rightarrow> string \<Rightarrow> jsnum \<Rightarrow> atm \<Rightarrow> (error + txn) \<times> atm" where
  "deposit reads fails amount amountNum s =
     (case session_file s of
        None \<Rightarrow> (Inl NotAuthenticated, s)
      | Some sess \<Rightarrow>
          if bad_amount amountNum then (Inl InvalidAmount, s)
          else if fails 0 then (Inl StoreError, s)
          else
           (case select_accounts_by_id (sess_id sess) s of
              [] \<Rightarrow> (Inl TypeError, s)
            | a # _ \<Rightarrow>
                let newBalance = js_add (Fin (acc_balance a)) amountNum in
                (case db_update_balance (fails 1) (\<lambda>r. acc_id r = sess_id sess) newBalance s of
                   None \<Rightarrow> (Inl StoreError, s)
                 | Some s1 \<Rightarrow>
                    (case db_insert_txn (fails 2) (acc_id a) Deposit (reads amount) None s1 of
                       None \<Rightarrow> (Inl StoreError, s1)
                     | Some (insertId, s2) \<Rightarrow>
                         if fails 3 then (Inl StoreError, s2)
                         else
                          (case select_txn_by_id insertId s2 of
                             [] \<Rightarrow> (Inl TypeError, s2)
                           | t # _ \<Rightarrow> (Inr t, s2))))))"

text \<open>
  Statements of withdraw: 0 SELECT account, 1 UPDATE balance (\<^verbatim>\<open>WHERE name = ?\<close>, with
  the name read from the row), 2 INSERT row (amount bound as text), 3 SELECT row.
\<close>

definition withdraw ::
  "(string \<Rightarrow> rat option) \<Rightarrow> (nat \<Rightarrow> bool) \<Rightarrow> string \<Rightarrow> jsnum \<Rightarrow> atm \<Rightarrow> (error + txn) \<times> atm" where
  "withdraw reads fails amount amountNum s =
     (case session_file s of
        None \<Rightarrow> (Inl NotAuthenticated, s)
      | Some sess \<Rightarrow>
          if bad_amount amountNum then (Inl InvalidAmount, s)
          else if fails 0 then (Inl StoreError, s)
          else
           (case select_accounts_by_id (sess_id sess) s of
              [] \<Rightarrow> (Inl TypeError, s)
            | a # _ \<Rightarrow>
                if js_gt amountNum (Fin (acc_balance a)) then (Inl InsufficientFunds, s)
                else
                  let newBalance = js_sub (Fin (acc_balance a)) amountNum in
                  (case db_update_balance (fails 1) (\<lambda>r. acc_name r = acc_name a) newBalance s of
                     None \<Rightarrow> (Inl StoreError, s)
                   | Some s1 \<Rightarrow>
                      (case db_insert_txn (fails 2) (acc_id a) Withdraw (reads amount) None s1 of
                         None \<Rightarrow> (Inl StoreError, s1)
                       | Some (insertId, s2) \<Rightarrow>
                           if fails 3 then (Inl StoreError, s2)
                           else
                            (case select_txn_by_id insertId s2 of
                               [] \<Rightarrow> (Inl TypeError, s2)
                             | t # _ \<Rightarrow> (Inr t, s2))))))"

text \<open>
  Statements of transfer: 0 SELECT target, 1 SELECT sender, 2 UPDATE sender, 3 INSERT
  transfer_out, 4 UPDATE receiver, 5 INSERT transfer_in, 6 SELECT transfer_out row,
  7 SELECT transfer_in row. The action prints the two rows, the first with the receiver's
  name and the second with the sender's.
\<close>

definition transfer ::
  "(nat \<Rightarrow> bool) \<Rightarrow> jsnum \<Rightarrow> nat \<Rightarrow> atm \<Rightarrow> (error + (txn \<times> string) \<times> (txn \<times> string)) \<times> atm" where
  "transfer fails amountNum to s =
     (case session_file s of
        None \<Rightarrow> (Inl NotAuthenticated, s)
      | Some sess \<Rightarrow>
          if bad_amount amountNum then (Inl InvalidAmount, s)
          else if fails 0 then (Inl StoreError, s)
          else
           (case select_accounts_by_id to s of
              [] \<Rightarrow> (Inl TargetNotFound, s)
            | target # _ \<Rightarrow>
                if fails 1 then (Inl StoreError, s)
                else
                 (case select_accounts_by_id (sess_id sess) s of
                    [] \<Rightarrow> (Inl TypeError, s)
                  | a # _ \<Rightarrow>
                      if js_gt amountNum (Fin (acc_balance a)) then (Inl InsufficientFunds, s)
                      else
                        let newSenderBalance = js_sub (Fin (acc_balance a)) amountNum;
                            newReceiverBalance = js_add (Fin (acc_balance target)) amountNum
                        in
                        (case db_update_balance (fails 2) (\<lambda>r. acc_id r = acc_id a)
                                newSenderBalance s of
                           None \<Rightarrow> (Inl StoreError, s)
                         | Some s1 \<Rightarrow>
                          (case db_insert_txn (fails 3) (acc_id a) TransferOut
                                  (decimal_of_number amountNum) (Some (acc_id target)) s1 of
                             None \<Rightarrow> (Inl StoreError, s1)
                           | Some (outId, s2) \<Rightarrow>
                            (case db_update_balance (fails 4) (\<lambda>r. acc_id r = acc_id target)
                                    newReceiverBalance s2 of
                               None \<Rightarrow> (Inl StoreError, s2)
                             | Some s3 \<Rightarrow>
                              (case db_insert_txn (fails 5) (acc_id target) TransferIn
                                      (decimal_of_number amountNum) (Some (acc_id a)) s3 of
                                 None \<Rightarrow> (Inl StoreError, s3)
                               | Some (inId, s4) \<Rightarrow>
                                   if fails 6 then (Inl StoreError, s4)
                                   else if fails 7 then (Inl StoreError, s4)
                                   else
                                    (case select_txn_by_id outId s4 of
                                       [] \<Rightarrow> (Inl TypeError, s4)
                                     | tfout # _ \<Rightarrow>
                                      (case select_txn_by_id inId s4 of
                                         [] \<Rightarrow> (Inl TypeError, s4)
                                       | tfin # _ \<Rightarrow>
                                           (Inr ((tfout, acc_name target),
                                                 (tfin, acc_name a)), s4))))))))))"

section \<open>Sequences of commands\<close>

text \<open>
  Every command line is a fresh run of the program: the module is loaded, which sets
  \<^verbatim>\<open>failedLoginAttempts\<close> to 0, and one action runs against the store and the session
  file the previous runs have left. \<open>exec\<close> is one such run, given the command and the
  failure predicate of its statements; \<open>run\<close> is a list of them from left to right. An
  amount comes as the text typed and the number the runtime reads from it.
\<close>

datatype command =
    CmdRegister string "string option"
  | CmdLogin string "string option"
  | CmdCheckBalance
  | CmdDeposit string jsnum
  | CmdWithdraw string jsnum
  | CmdTransfer jsnum nat

definition module_load :: "atm \<Rightarrow> atm" where
  "module_load s = s\<lparr>failedLoginAttempts := 0\<rparr>"

fun action ::
  "(string \<Rightarrow> string) \<Rightarrow> (string \<Rightarrow> string \<Rightarrow> bool) \<Rightarrow> (string \<Rightarrow> rat option) \<Rightarrow> (nat \<Rightarrow> bool) \<Rightarrow>
     command \<Rightarrow> atm \<Rightarrow> atm" where
  "action hash verify reads fails (CmdRegister name pin_opt) s =
     snd (register hash fails name pin_opt s)"
| "action hash verify reads fails (CmdLogin name pin_opt) s =
     snd (login verify fails name pin_opt s)"
| "action hash verify reads fails CmdCheckBalance s = snd (check_balance fails s)"
| "action hash verify reads fails (CmdDeposit amount amountNum) s =
     snd (deposit reads fails amount amountNum s)"
| "action hash verify reads fails (CmdWithdraw amount amountNum) s =
     snd (withdraw reads fails amount amountNum s)"
| "action hash verify reads fails (CmdTransfer amountNum to) s =
     snd (transfer fails amountNum to s)"

definition exec ::
  "(string \<Rightarrow> string) \<Rightarrow> (string \<Rightarrow> string \<Rightarrow> bool) \<Rightarrow> (string \<Rightarrow> rat option) \<Rightarrow>
     (nat \<Rightarrow> bool) \<times> command \<Rightarrow> atm \<Rightarrow> atm" where
  "exec hash verify reads c s = action hash verify reads (fst c) (snd c) (module_load s)"

fun run ::
  "(string \<Rightarrow> string) \<Rightarrow> (string \<Rightarrow> string \<Rightarrow> bool) \<Rightarrow> (string \<Rightarrow> rat option) \<Rightarrow>
     ((nat \<Rightarrow> bool) \<times> command) list \<Rightarrow> atm \<Rightarrow> atm" where
  "run hash verify reads [] s = s"
| "run hash verify reads (c # cs) s = run hash verify reads cs (exec hash verify reads c s)"

definition balances_nonneg :: "atm \<Rightarrow> bool" where
  "balances_nonneg s = list_all (\<lambda>a. 0 \<le> acc_balance a) (accounts s)"

text \<open>The balance a \<^verbatim>\<open>SELECT ... WHERE id = ?\<close> shows for an account, if there is one.\<close>

definition balance_of :: "nat \<Rightarrow> atm \<Rightarrow> rat option" where
  "balance_of i s =
     (case select_accounts_by_id i s of [] \<Rightarrow> None | a # _ \<Rightarrow> Some (acc_balance a))"

section \<open>Fixtures\<close>

text \<open>Failure predicates: no statement fails; exactly the statement at position \<open>n\<close> fails.\<close>

definition no_faults :: "nat \<Rightarrow> bool" where
  "no_faults k = False"

definition fail_at :: "nat \<Rightarrow> nat \<Rightarrow> bool" where
  "fail_at n k = (k = n)"

text \<open>A stand-in for bcrypt: the hash of a PIN is the PIN behind a fixed prefix.\<close>

definition hash0 :: "string \<Rightarrow> string" where
  "hash0 pin = ''bcrypt:'' @ pin"

definition verify0 :: "string \<Rightarrow> string \<Rightarrow> bool" where
  "verify0 pin h = (h = hash0 pin)"

text \<open>
  Stand-ins for what the store makes of a text bound to a DECIMAL column. Both scan an
  optional sign, decimal digits and an optional fraction. The strict one reads the text
  as that number when the scan takes all of it and found a digit, and refuses it
  otherwise (a strict MySQL also reads an exponent and surrounding blanks; no amount
  below has them). The lenient one reads what the scan took and drops the rest, as a
  MySQL outside strict mode does: it reads the text 0x10 as 0.
\<close>

definition digit_of :: "char \<Rightarrow> nat option" where
  "digit_of c =
     map_of [(CHR ''0'', 0), (CHR ''1'', 1), (CHR ''2'', 2), (CHR ''3'', 3), (CHR ''4'', 4),
             (CHR ''5'', 5), (CHR ''6'', 6), (CHR ''7'', 7), (CHR ''8'', 8), (CHR ''9'', 9)] c"

text \<open>The digits a text starts with: their value, how many they are, and the rest.\<close>

fun scan_digits :: "nat \<Rightarrow> nat \<Rightarrow> string \<Rightarrow> nat \<times> nat \<times> string" where
  "scan_digits acc n [] = (acc, n, [])"
| "scan_digits acc n (c # cs) =
     (case digit_of c of
        None \<Rightarrow> (acc, n, c # cs)
      | Some d \<Rightarrow> scan_digits (10 * acc + d) (Suc n) cs)"

text \<open>Digits, then possibly a point and more digits: value, number of digits, rest.\<close>

definition scan_unsigned :: "string \<Rightarrow> rat \<times> nat \<times> string" where
  "scan_unsigned t =
     (case scan_digits 0 0 t of
        (i, ni, r1) \<Rightarrow>
          (case r1 of
             [] \<Rightarrow> (of_nat i, ni, r1)
           | c # r2 \<Rightarrow>
               if c = CHR ''.''
               then (case scan_digits 0 0 r2 of
                       (f, nf, r3) \<Rightarrow> (of_nat i + of_nat f / 10 ^ nf, ni + nf, r3))
               else (of_nat i, ni, r1)))"

definition scan_decimal :: "string \<Rightarrow> rat \<times> nat \<times> string" where
  "scan_decimal t =
     (case t of
        [] \<Rightarrow> scan_unsigned t
      | c # cs \<Rightarrow>
          if c = CHR ''-'' then (case scan_unsigned cs of (v, n, r) \<Rightarrow> (- v, n, r))
          else if c = CHR ''+'' then scan_unsigned cs
          else scan_unsigned t)"

definition strict_reads :: "string \<Rightarrow> rat option" where
  "strict_reads t =
     (case scan_decimal t of (v, n, r) \<Rightarrow> if 0 < n \<and> r = [] then Some v else None)"

definition lenient_reads :: "string \<Rightarrow> rat option" where
  "lenient_reads t = (case scan_decimal t of (v, n, r) \<Rightarrow> Some v)"

text \<open>
  A store with two accounts, alice (id 1, PIN 123456, balance 100) and bob (id 2, PIN
  654321, balance 0), no transaction yet and nobody logged in; the same with alice
  logged in; and one where the session file names an account that is not in the store.
\<close>

definition alice :: account where
  "alice = \<lparr>acc_id = 1, acc_name = ''alice'', acc_pin = ''bcrypt:123456'', acc_balance = 100\<rparr>"

definition bob :: account where
  "bob = \<lparr>acc_id = 2, acc_name = ''bob'', acc_pin = ''bcrypt:654321'', acc_balance = 0\<rparr>"

definition bank0 :: atm where
  "bank0 = \<lparr>accounts = [alice, bob], acc_auto_inc = 3, transactions = [], txn_auto_inc = 1,
             session_file = None, failedLoginAttempts = 0\<rparr>"

definition bank_alice :: atm where
  "bank_alice = bank0\<lparr>session_file := Some \<lparr>sess_id = 1, sess_name = ''alice''\<rparr>\<rparr>"

definition bank_ghost :: atm where
  "bank_ghost = bank0\<lparr>session_file := Some \<lparr>sess_id = 7, sess_name = ''carol''\<rparr>\<rparr>"

text \<open>
  Two accounts registered under the same name (the action \<^verbatim>\<open>register\<close> inserts without
  looking for the name), the first of them logged in.
\<close>

definition bank_twins :: atm where
  "bank_twins =
     \<lparr>accounts = [\<lparr>acc_id = 1, acc_name = ''sam'', acc_pin = ''bcrypt:111111'', acc_balance = 100\<rparr>,
                  \<lparr>acc_id = 2, acc_name = ''sam'', acc_pin = ''bcrypt:222222'', acc_balance = 500\<rparr>],
      acc_auto_inc = 3, transactions = [], txn_auto_inc = 1,
      session_file = Some \<lparr>sess_id = 1, sess_name = ''sam''\<rparr>, failedLoginAttempts = 0\<rparr>"

section \<open>Definitions unfolded when a command is run on a fixture\<close>

lemmas fixture_defs =
  no_faults_def fail_at_def hash0_def verify0_def alice_def bob_def bank0_def bank_alice_def
  bank_ghost_def bank_twins_def digit_of_def scan_unsigned_def scan_decimal_def
  strict_reads_def lenient_reads_def

lemmas store_defs =
  select_accounts_by_id_def select_accounts_by_name_def select_txn_by_id_def set_balance_def
  add_txn_def add_account_def db_update_balance_def db_insert_txn_def decimal_of_number_def

section \<open>Authentication\<close>

lemma login_locked:
  "3 \<le> failedLoginAttempts s \<Longrightarrow> login verify fails name pin_opt s = (Inl LockedOut, s)"
  by (simp add: login_def)

lemma logins_locked:
  "3 \<le> failedLoginAttempts s \<Longrightarrow>
     logins verify attempts s = (replicate (length attempts) (Inl LockedOut), s)"
proof (induction attempts)
  case Nil
  show ?case by simp
next
  case (Cons x xs)
  obtain fails name pin_opt where x: "x = (fails, name, pin_opt)"
    by (cases x) auto
  from Cons show ?case
    by (simp add: x login_locked)
qed

lemma login_success_resets:
  "login verify fails name pin_opt s = (Inr v, s') \<Longrightarrow> failedLoginAttempts s' = 0"
  by (auto simp: login_def Let_def split: if_splits option.splits list.splits)

text \<open>
  The outcome of a login does not depend on the PIN typed, nor on what bcrypt would say
  about it: the branch guarded by \<^verbatim>\<open>!match\<close> is never taken.
\<close>

lemma login_pin_irrelevant:
  "login verify fails name (Some pin) s = login verify' fails name (Some pin') s"
  by (simp add: login_def bcrypt_compare_def split: list.split)

lemma login_known_name:
  assumes "failedLoginAttempts s < 3" and "\<not> fails 0"
    and "select_accounts_by_name name s = a # rest"
  shows "login verify fails name (Some pin) s =
           (Inr (acc_id a, acc_name a, acc_balance a),
            s\<lparr>failedLoginAttempts := 0,
              session_file := Some \<lparr>sess_id = acc_id a, sess_name = acc_name a\<rparr>\<rparr>)"
  using assms by (simp add: login_def bcrypt_compare_def)

text \<open>
  Claim C1 (a login with an existing name and a PIN that does not verify fails with
  InvalidCredentials and counts as a failure; it never succeeds). The program does the
  opposite. With alice's PIN 123456 stored, the attempt with 000000, which the comparison
  rejects, logs her in: the account view is returned, the session file names her and the
  counter is 0.
\<close>

theorem login_accepts_wrong_pin:
  "verify0 ''000000'' (acc_pin alice) = False \<and>
   login verify0 no_faults ''alice'' (Some ''000000'') bank0 =
     (Inr (1, ''alice'', 100),
      bank0\<lparr>failedLoginAttempts := 0,
            session_file := Some \<lparr>sess_id = 1, sess_name = ''alice''\<rparr>\<rparr>)"
  by (simp add: login_def bcrypt_compare_def store_defs fixture_defs)

text \<open>
  The only failure the counter ever sees is an unknown name. Three of them in one run of
  the module lock it, and the attempt with alice's own PIN that follows is refused.
\<close>

lemma three_unknown_names_lock:
  "logins verify0
     [(no_faults, ''mallory'', Some ''000000''), (no_faults, ''mallory'', Some ''000001''),
      (no_faults, ''mallory'', Some ''000002''), (no_faults, ''alice'', Some ''123456'')]
     bank0 =
   ([Inl InvalidCredentials, Inl InvalidCredentials, Inl InvalidCredentials, Inl LockedOut],
    bank0\<lparr>failedLoginAttempts := 3\<rparr>)"
  by (simp add: login_def bcrypt_compare_def store_defs fixture_defs)

text \<open>
  Claim C8. Once \<^verbatim>\<open>failedLoginAttempts\<close> is 3 or more, every login attempt of any
  sequence of attempts, whatever name and PIN it carries, is answered with LockedOut and
  leaves the state as it is. No statement is sent to the store: the answer is the same
  when every statement would throw (\<open>fails\<close> is arbitrary in each attempt). And a login
  that succeeds leaves the counter at 0.
\<close>

theorem lockout_is_permanent_and_success_resets:
  "(3 \<le> failedLoginAttempts s \<longrightarrow>
      logins verify attempts s = (replicate (length attempts) (Inl LockedOut), s)) \<and>
   (login verify fails name pin_opt t = (Inr v, t') \<longrightarrow> failedLoginAttempts t' = 0)"
  using logins_locked login_success_resets by blast

theorem lockout_is_permanent_and_success_resets_witness:
  "logins verify0
      [(no_faults, ''alice'', Some ''123456''), (fail_at 0, ''bob'', Some ''654321'')]
      (bank0\<lparr>failedLoginAttempts := 3\<rparr>) =
     ([Inl LockedOut, Inl LockedOut], bank0\<lparr>failedLoginAttempts := 3\<rparr>) \<and>
   login verify0 no_faults ''alice'' (Some ''123456'') (bank0\<lparr>failedLoginAttempts := 2\<rparr>) =
     (Inr (1, ''alice'', 100),
      bank0\<lparr>failedLoginAttempts := 0,
            session_file := Some \<lparr>sess_id = 1, sess_name = ''alice''\<rparr>\<rparr>) \<and>
   failedLoginAttempts
     (bank0\<lparr>failedLoginAttempts := 0,
            session_file := Some \<lparr>sess_id = 1, sess_name = ''alice''\<rparr>\<rparr>) = 0"
proof -
  have locked: "3 \<le> failedLoginAttempts (bank0\<lparr>failedLoginAttempts := 3\<rparr>)"
    by simp
  have ok: "login verify0 no_faults ''alice'' (Some ''123456'') (bank0\<lparr>failedLoginAttempts := 2\<rparr>) =
      (Inr (1, ''alice'', 100),
       bank0\<lparr>failedLoginAttempts := 0,
             session_file := Some \<lparr>sess_id = 1, sess_name = ''alice''\<rparr>\<rparr>)"
    by (simp add: login_def bcrypt_compare_def store_defs fixture_defs)
  note inst = lockout_is_permanent_and_success_resets
    [where s = "bank0\<lparr>failedLoginAttempts := 3\<rparr>" and verify = verify0
       and attempts = "[(no_faults, ''alice'', Some ''123456''), (fail_at 0, ''bob'', Some ''654321'')]"
       and fails = no_faults and name = "''alice''" and pin_opt = "Some ''123456''"
       and t = "bank0\<lparr>failedLoginAttempts := 2\<rparr>"
       and t' = "bank0\<lparr>failedLoginAttempts := 0,
             session_file := Some \<lparr>sess_id = 1, sess_name = ''alice''\<rparr>\<rparr>"
       and v = "(1, ''alice'', 100)"]
  from inst locked ok show ?thesis
    by simp
qed

section \<open>The store\<close>

lemma select_accounts_by_id_hd:
  assumes "select_accounts_by_id i s = a # rest"
  shows "acc_id a = i \<and> a \<in> set (accounts s)"
proof -
  have "a \<in> set (filter (\<lambda>a. acc_id a = i) (accounts s))"
    using assms by (simp add: select_accounts_by_id_def)
  then show ?thesis by simp
qed

lemma select_txn_by_id_add:
  "select_txn_by_id i (add_txn a k v t s) =
     select_txn_by_id i s @
       (if i = txn_auto_inc s
        then [\<lparr>txn_id = txn_auto_inc s, txn_account = a, txn_kind = k,
               txn_amount = v, txn_target = t\<rparr>]
        else [])"
  by (simp add: select_txn_by_id_def add_txn_def)

lemma select_txn_by_id_set_balance [simp]:
  "select_txn_by_id i (set_balance P v s) = select_txn_by_id i s"
  by (simp add: select_txn_by_id_def set_balance_def)

lemma txn_auto_inc_set_balance [simp]:
  "txn_auto_inc (set_balance P v s) = txn_auto_inc s"
  by (simp add: set_balance_def)

lemma txn_auto_inc_add_txn [simp]:
  "txn_auto_inc (add_txn a k v t s) = Suc (txn_auto_inc s)"
  by (simp add: add_txn_def)

lemma transactions_set_balance [simp]:
  "transactions (set_balance P v s) = transactions s"
  by (simp add: set_balance_def)

lemma transactions_add_txn:
  "transactions (add_txn a k v t s) =
     transactions s @ [\<lparr>txn_id = txn_auto_inc s, txn_account = a, txn_kind = k,
                         txn_amount = v, txn_target = t\<rparr>]"
  by (simp add: add_txn_def)

lemma accounts_add_txn [simp]:
  "accounts (add_txn a k v t s) = accounts s"
  by (simp add: add_txn_def)

text \<open>
  The row just inserted is found again: the SELECT that follows an INSERT never comes back
  empty.
\<close>

lemma select_new_row:
  "\<exists>row others.
     select_txn_by_id (txn_auto_inc s) (add_txn a k v t (set_balance P w s)) = row # others"
  by (cases "select_txn_by_id (txn_auto_inc s) s") (simp_all add: select_txn_by_id_add)

lemma select_new_row_before:
  "\<exists>row others.
     select_txn_by_id (txn_auto_inc s)
        (add_txn a' k' v' t' (set_balance P w (add_txn a k v t (set_balance Q u s))))
       = row # others"
  by (cases "select_txn_by_id (txn_auto_inc s) s") (simp_all add: select_txn_by_id_add)

lemma select_new_row_after:
  "\<exists>row others.
     select_txn_by_id (Suc (txn_auto_inc s))
        (add_txn a' k' v' t' (set_balance P w (add_txn a k v t (set_balance Q u s))))
       = row # others"
  by (cases "select_txn_by_id (Suc (txn_auto_inc s)) s") (simp_all add: select_txn_by_id_add)

lemma filter_id_after_update:
  "filter (\<lambda>a. acc_id a = i) (map (\<lambda>a. if acc_id a = j then a\<lparr>acc_balance := v\<rparr> else a) xs) =
     (if i = j then map (\<lambda>a. a\<lparr>acc_balance := v\<rparr>) (filter (\<lambda>a. acc_id a = i) xs)
      else filter (\<lambda>a. acc_id a = i) xs)"
  by (induction xs) auto

lemma balance_of_set_balance:
  "balance_of i (set_balance (\<lambda>x. acc_id x = j) v s) =
     (if i = j then map_option (\<lambda>_. v) (balance_of i s) else balance_of i s)"
  by (simp add: balance_of_def select_accounts_by_id_def set_balance_def filter_id_after_update
        split: list.split)

lemma balance_of_add_txn [simp]:
  "balance_of i (add_txn a k v t s) = balance_of i s"
  by (simp add: balance_of_def select_accounts_by_id_def)

lemma balance_of_hd:
  "select_accounts_by_id i s = a # rest \<Longrightarrow> balance_of i s = Some (acc_balance a)"
  by (simp add: balance_of_def)

lemma bad_amount_iff:
  "bad_amount n \<longleftrightarrow> n = NaN \<or> n = NInf \<or> (\<exists>r. n = Fin r \<and> r \<le> 0)"
  by (cases n) (auto simp: bad_amount_def)

section \<open>What each command leaves behind\<close>

text \<open>
  Once the session, the amount and the reads are in order, the state a command leaves is
  decided by the first write that fails or is refused, and its answer is the store's error
  as soon as one statement fails, a row otherwise.
\<close>

lemma deposit_state:
  assumes "session_file s = Some sess" and "0 < r" and "\<not> fails 0"
    and "select_accounts_by_id (sess_id sess) s = a # rest"
  shows "snd (deposit reads fails amount (Fin r) s) =
           (if fails 1 then s
            else let s1 = set_balance (\<lambda>x. acc_id x = sess_id sess) (acc_balance a + r) s in
              if fails 2 then s1
              else (case reads amount of
                      None \<Rightarrow> s1
                    | Some d \<Rightarrow> add_txn (sess_id sess) Deposit d None s1))"
  using assms select_accounts_by_id_hd [OF assms(4)]
  by (simp add: deposit_def bad_amount_def db_update_balance_def db_insert_txn_def Let_def
        split: list.split option.split)

lemma withdraw_state:
  assumes "session_file s = Some sess" and "0 < r" and "\<not> fails 0"
    and "select_accounts_by_id (sess_id sess) s = a # rest" and "r \<le> acc_balance a"
  shows "snd (withdraw reads fails amount (Fin r) s) =
           (if fails 1 then s
            else let s1 = set_balance (\<lambda>x. acc_name x = acc_name a) (acc_balance a - r) s in
              if fails 2 then s1
              else (case reads amount of
                      None \<Rightarrow> s1
                    | Some d \<Rightarrow> add_txn (sess_id sess) Withdraw d None s1))"
  using assms select_accounts_by_id_hd [OF assms(4)]
  by (simp add: withdraw_def bad_amount_def js_sub_def db_update_balance_def db_insert_txn_def
        Let_def split: list.split option.split)

lemma transfer_state:
  assumes "session_file s = Some sess" and "0 < r" and "\<not> fails 0" and "\<not> fails 1"
    and "select_accounts_by_id to s = target # others"
    and "select_accounts_by_id (sess_id sess) s = a # rest" and "r \<le> acc_balance a"
  shows "snd (transfer fails (Fin r) to s) =
           (if fails 2 then s
            else let s1 = set_balance (\<lambda>x. acc_id x = sess_id sess) (acc_balance a - r) s in
              if fails 3 then s1
              else let s2 = add_txn (sess_id sess) TransferOut r (Some to) s1 in
                if fails 4 then s2
                else let s3 = set_balance (\<lambda>x. acc_id x = to) (acc_balance target + r) s2 in
                  if fails 5 then s3
                  else add_txn to TransferIn r (Some (sess_id sess)) s3)"
  using assms select_accounts_by_id_hd [OF assms(5)] select_accounts_by_id_hd [OF assms(6)]
  by (simp add: transfer_def bad_amount_def js_sub_def db_update_balance_def db_insert_txn_def
        decimal_of_number_def Let_def split: list.split)

lemma deposit_outcome:
  assumes "session_file s = Some sess" and "0 < r" and "\<not> fails 0"
    and "select_accounts_by_id (sess_id sess) s = a # rest"
  shows "if fails 1 \<or> fails 2 \<or> reads amount = None \<or> fails 3
         then fst (deposit reads fails amount (Fin r) s) = Inl StoreError
         else (\<exists>row. fst (deposit reads fails amount (Fin r) s) = Inr row)"
proof (cases "reads amount")
  case None
  with assms show ?thesis
    by (simp add: deposit_def bad_amount_def db_update_balance_def db_insert_txn_def Let_def)
next
  case (Some d)
  obtain row others where
    "select_txn_by_id (txn_auto_inc s)
       (add_txn (acc_id a) Deposit d None
          (set_balance (\<lambda>x. acc_id x = sess_id sess) (acc_balance a + r) s)) = row # others"
    using select_new_row by blast
  with assms Some show ?thesis
    by (simp add: deposit_def bad_amount_def db_update_balance_def db_insert_txn_def Let_def)
qed

lemma withdraw_outcome:
  assumes "session_file s = Some sess" and "0 < r" and "\<not> fails 0"
    and "select_accounts_by_id (sess_id sess) s = a # rest" and "r \<le> acc_balance a"
  shows "if fails 1 \<or> fails 2 \<or> reads amount = None \<or> fails 3
         then fst (withdraw reads fails amount (Fin r) s) = Inl StoreError
         else (\<exists>row. fst (withdraw reads fails amount (Fin r) s) = Inr row)"
proof (cases "reads amount")
  case None
  with assms show ?thesis
    by (simp add: withdraw_def bad_amount_def js_sub_def db_update_balance_def
          db_insert_txn_def Let_def)
next
  case (Some d)
  obtain row others where
    "select_txn_by_id (txn_auto_inc s)
       (add_txn (acc_id a) Withdraw d None
          (set_balance (\<lambda>x. acc_name x = acc_name a) (acc_balance a - r) s)) = row # others"
    using select_new_row by blast
  with assms Some show ?thesis
    by (simp add: withdraw_def bad_amount_def js_sub_def db_update_balance_def
          db_insert_txn_def Let_def)
qed

lemma transfer_outcome:
  assumes "session_file s = Some sess" and "0 < r" and "\<not> fails 0" and "\<not> fails 1"
    and "select_accounts_by_id to s = target # others"
    and "select_accounts_by_id (sess_id sess) s = a # rest" and "r \<le> acc_balance a"
  shows "if fails 2 \<or> fails 3 \<or> fails 4 \<or> fails 5 \<or> fails 6 \<or> fails 7
         then fst (transfer fails (Fin r) to s) = Inl StoreError
         else (\<exists>rows. fst (transfer fails (Fin r) to s) = Inr rows)"
proof -
  let ?s1 = "set_balance (\<lambda>x. acc_id x = acc_id a) (acc_balance a - r) s"
  let ?s4 = "add_txn (acc_id target) TransferIn r (Some (acc_id a))
               (set_balance (\<lambda>x. acc_id x = acc_id target) (acc_balance target + r)
                  (add_txn (acc_id a) TransferOut r (Some (acc_id target)) ?s1))"
  obtain out outs where out: "select_txn_by_id (txn_auto_inc s) ?s4 = out # outs"
    using select_new_row_before by blast
  obtain inn inns where inn: "select_txn_by_id (Suc (txn_auto_inc s)) ?s4 = inn # inns"
    using select_new_row_after by blast
  from assms out inn show ?thesis
    by (simp add: transfer_def bad_amount_def js_sub_def db_update_balance_def
          db_insert_txn_def decimal_of_number_def Let_def)
qed

text \<open>
  Conversely, a command that answers with a row has passed every check and every statement.
\<close>

lemma deposit_success:
  assumes "deposit reads fails amount n s = (Inr row, s')"
  shows "\<exists>sess a rest r d. session_file s = Some sess \<and> n = Fin r \<and> 0 < r \<and>
           select_accounts_by_id (sess_id sess) s = a # rest \<and> reads amount = Some d \<and>
           s' = add_txn (acc_id a) Deposit d None
                  (set_balance (\<lambda>x. acc_id x = sess_id sess) (acc_balance a + r) s)"
  using assms
  by (cases n)
     (auto simp: deposit_def bad_amount_def db_update_balance_def db_insert_txn_def Let_def
        split: option.splits list.splits if_splits)

lemma withdraw_success:
  assumes "withdraw reads fails amount n s = (Inr row, s')"
  shows "\<exists>sess a rest r d. session_file s = Some sess \<and> n = Fin r \<and> 0 < r \<and>
           select_accounts_by_id (sess_id sess) s = a # rest \<and> r \<le> acc_balance a \<and>
           reads amount = Some d \<and>
           s' = add_txn (acc_id a) Withdraw d None
                  (set_balance (\<lambda>x. acc_name x = acc_name a) (acc_balance a - r) s)"
  using assms
  by (cases n)
     (auto simp: withdraw_def bad_amount_def js_sub_def db_update_balance_def db_insert_txn_def
        Let_def split: option.splits list.splits if_splits)

lemma transfer_success:
  assumes "transfer fails n to s = (Inr rows, s')"
  shows "\<exists>sess a rest target others r. session_file s = Some sess \<and> n = Fin r \<and> 0 < r \<and>
           select_accounts_by_id (sess_id sess) s = a # rest \<and>
           select_accounts_by_id to s = target # others \<and> r \<le> acc_balance a \<and>
           s' = add_txn (acc_id target) TransferIn r (Some (acc_id a))
                 (set_balance (\<lambda>x. acc_id x = acc_id target) (acc_balance target + r)
                   (add_txn (acc_id a) TransferOut r (Some (acc_id target))
                     (set_balance (\<lambda>x. acc_id x = acc_id a) (acc_balance a - r) s)))"
  using assms
  by (cases n)
     (auto simp: transfer_def bad_amount_def js_sub_def db_update_balance_def
        db_insert_txn_def decimal_of_number_def Let_def
        split: option.splits list.splits if_splits)

section \<open>Validation before any write\<close>

text \<open>
  Claim C6, as the code has it. With an active session, an amount that is NaN, zero or
  negative (minus infinity included) makes deposit, withdraw and transfer fail with
  InvalidAmount, and the state is left as it was: no balance and no row is written. Any
  other amount, plus infinity among them, is not answered with InvalidAmount: the check
  is \<^verbatim>\<open>isNaN(amountNum) || amountNum <= 0\<close> and nothing tests finiteness.
\<close>

theorem amount_validation:
  assumes "session_file s = Some sess"
  shows "(n = NaN \<or> n = NInf \<or> (\<exists>r. n = Fin r \<and> r \<le> 0) \<longrightarrow>
            deposit reads fails amount n s = (Inl InvalidAmount, s) \<and>
            withdraw reads fails amount n s = (Inl InvalidAmount, s) \<and>
            transfer fails n to s = (Inl InvalidAmount, s)) \<and>
         (n = PInf \<or> (\<exists>r. n = Fin r \<and> 0 < r) \<longrightarrow>
            fst (deposit reads fails amount n s) \<noteq> Inl InvalidAmount \<and>
            fst (withdraw reads fails amount n s) \<noteq> Inl InvalidAmount \<and>
            fst (transfer fails n to s) \<noteq> Inl InvalidAmount)"
proof (intro conjI impI)
  assume "n = NaN \<or> n = NInf \<or> (\<exists>r. n = Fin r \<and> r \<le> 0)"
  then have bad: "bad_amount n" by (simp add: bad_amount_iff)
  show "deposit reads fails amount n s = (Inl InvalidAmount, s)"
    using assms bad by (simp add: deposit_def)
  show "withdraw reads fails amount n s = (Inl InvalidAmount, s)"
    using assms bad by (simp add: withdraw_def)
  show "transfer fails n to s = (Inl InvalidAmount, s)"
    using assms bad by (simp add: transfer_def)
next
  assume "n = PInf \<or> (\<exists>r. n = Fin r \<and> 0 < r)"
  then have good: "\<not> bad_amount n" by (auto simp: bad_amount_iff)
  show "fst (deposit reads fails amount n s) \<noteq> Inl InvalidAmount"
    using assms good
    by (simp add: deposit_def Let_def split: list.split option.split prod.split)
  show "fst (withdraw reads fails amount n s) \<noteq> Inl InvalidAmount"
    using assms good
    by (simp add: withdraw_def Let_def split: list.split option.split prod.split)
  show "fst (transfer fails n to s) \<noteq> Inl InvalidAmount"
    using assms good
    by (simp add: transfer_def Let_def split: list.split option.split prod.split)
qed

theorem amount_validation_witness:
  "deposit strict_reads no_faults ''0'' (Fin 0) bank_alice = (Inl InvalidAmount, bank_alice) \<and>
   withdraw strict_reads no_faults ''0'' (Fin 0) bank_alice = (Inl InvalidAmount, bank_alice) \<and>
   transfer no_faults (Fin 0) 2 bank_alice = (Inl InvalidAmount, bank_alice) \<and>
   fst (deposit strict_reads no_faults ''10'' (Fin 10) bank_alice) \<noteq> Inl InvalidAmount \<and>
   fst (withdraw strict_reads no_faults ''10'' (Fin 10) bank_alice) \<noteq> Inl InvalidAmount \<and>
   fst (transfer no_faults (Fin 10) 2 bank_alice) \<noteq> Inl InvalidAmount"
proof -
  have sess: "session_file bank_alice = Some \<lparr>sess_id = 1, sess_name = ''alice''\<rparr>"
    by (simp add: fixture_defs)
  from amount_validation
         [OF sess, where n = "Fin 0" and reads = strict_reads and fails = no_faults
            and amount = "''0''" and to = 2]
       amount_validation
         [OF sess, where n = "Fin 10" and reads = strict_reads and fails = no_faults
            and amount = "''10''" and to = 2]
  show ?thesis by simp
qed

text \<open>
  Claim C6 as stated fails for an infinite amount: with alice logged in, a withdraw of
  \<^verbatim>\<open>Infinity\<close> passes the amount check and is refused by the balance check, with
  InsufficientFunds and not with InvalidAmount.
\<close>

theorem infinite_amount_passes_validation:
  "withdraw strict_reads no_faults ''Infinity'' PInf bank_alice = (Inl InsufficientFunds, bank_alice) \<and>
   fst (withdraw strict_reads no_faults ''Infinity'' PInf bank_alice) \<noteq> Inl InvalidAmount"
  by (simp add: withdraw_def bad_amount_def store_defs fixture_defs)

text \<open>
  Claim C5, as the code has it. With an active session whose account is in the store and
  an amount that has passed the amount check, if the amount is greater than the balance of
  the account then withdraw fails with InsufficientFunds and the state is the one before:
  the balance is unchanged and no row is inserted. Transfer does likewise against the
  sender's balance when the target account exists. The action looks the target up before
  it reads the sender's balance: when the target does not exist it fails with
  TargetNotFound instead, also without a write. (The store is taken to answer the reads.)
\<close>

theorem insufficient_funds_no_mutation:
  assumes "session_file s = Some sess"
    and "\<not> bad_amount amountNum"
    and "select_accounts_by_id (sess_id sess) s = a # rest"
    and "js_gt amountNum (Fin (acc_balance a))"
    and "\<not> fails 0"
  shows "withdraw reads fails amount amountNum s = (Inl InsufficientFunds, s) \<and>
         (\<not> fails 1 \<and> select_accounts_by_id to s \<noteq> [] \<longrightarrow>
            transfer fails amountNum to s = (Inl InsufficientFunds, s)) \<and>
         (select_accounts_by_id to s = [] \<longrightarrow>
            transfer fails amountNum to s = (Inl TargetNotFound, s))"
proof (intro conjI impI)
  show "withdraw reads fails amount amountNum s = (Inl InsufficientFunds, s)"
    using assms by (simp add: withdraw_def)
next
  assume h: "\<not> fails 1 \<and> select_accounts_by_id to s \<noteq> []"
  then obtain target others where "select_accounts_by_id to s = target # others"
    by (cases "select_accounts_by_id to s") auto
  with h assms show "transfer fails amountNum to s = (Inl InsufficientFunds, s)"
    by (simp add: transfer_def)
next
  assume "select_accounts_by_id to s = []"
  with assms show "transfer fails amountNum to s = (Inl TargetNotFound, s)"
    by (simp add: transfer_def)
qed

theorem insufficient_funds_no_mutation_witness:
  "withdraw strict_reads no_faults ''150'' (Fin 150) bank_alice = (Inl InsufficientFunds, bank_alice) \<and>
   transfer no_faults (Fin 150) 2 bank_alice = (Inl InsufficientFunds, bank_alice)"
proof -
  have sess: "session_file bank_alice = Some \<lparr>sess_id = 1, sess_name = ''alice''\<rparr>"
    by (simp add: fixture_defs)
  have amt: "\<not> bad_amount (Fin 150)"
    by (simp add: bad_amount_def)
  have a: "select_accounts_by_id (sess_id \<lparr>sess_id = 1, sess_name = ''alice''\<rparr>) bank_alice
             = alice # []"
    by (simp add: store_defs fixture_defs)
  have gt: "js_gt (Fin 150) (Fin (acc_balance alice))"
    by (simp add: fixture_defs)
  have r0: "\<not> no_faults 0"
    by (simp add: fixture_defs)
  have r1: "\<not> no_faults 1 \<and> select_accounts_by_id 2 bank_alice \<noteq> []"
    by (simp add: store_defs fixture_defs)
  from insufficient_funds_no_mutation
         [where fails = no_faults and to = 2 and reads = strict_reads and amount = "''150''",
          OF sess amt a gt r0] r1
  show ?thesis by simp
qed

text \<open>
  Claim C5 as stated (transfer likewise, with no condition on the target) fails when the
  target account does not exist: alice is logged in with a balance of 100 and 150 is a
  valid amount above it, but the transfer to account 9, which the store does not have,
  fails with TargetNotFound and not with InsufficientFunds.
\<close>

theorem transfer_checks_target_first:
  "session_file bank_alice = Some \<lparr>sess_id = 1, sess_name = ''alice''\<rparr> \<and>
   bad_amount (Fin 150) = False \<and>
   balance_of 1 bank_alice = Some 100 \<and>
   js_gt (Fin 150) (Fin 100) \<and>
   transfer no_faults (Fin 150) 9 bank_alice = (Inl TargetNotFound, bank_alice) \<and>
   fst (transfer no_faults (Fin 150) 9 bank_alice) \<noteq> Inl InsufficientFunds"
  by (simp add: transfer_def bad_amount_def balance_of_def store_defs fixture_defs)

text \<open>
  When the account of the session is not in the store, the SELECT comes back empty,
  \<^verbatim>\<open>accounts[0]\<close> is \<^verbatim>\<open>undefined\<close> and destructuring it throws: every command fails
  with the runtime's TypeError, before any write.
\<close>

lemma session_account_missing:
  assumes "session_file s = Some sess" and "select_accounts_by_id (sess_id sess) s = []"
    and "\<not> fails 0"
  shows "check_balance fails s = (Inl TypeError, s)"
    and "\<not> bad_amount n \<Longrightarrow> deposit reads fails amount n s = (Inl TypeError, s)"
    and "\<not> bad_amount n \<Longrightarrow> withdraw reads fails amount n s = (Inl TypeError, s)"
    and "\<not> bad_amount n \<Longrightarrow> \<not> fails 1 \<Longrightarrow> select_accounts_by_id to s = target # others \<Longrightarrow>
           transfer fails n to s = (Inl TypeError, s)"
  using assms
  by (simp_all add: check_balance_def deposit_def withdraw_def transfer_def)

text \<open>
  Claim C9 (with a session whose account is gone, each command fails with the error
  AccountNotFound and writes nothing, rather than failing on the empty query result). The
  program leaves the store alone but fails on the empty result: with a session for account
  7, which the store does not have, check-balance, deposit, withdraw and transfer all
  answer with the TypeError of the destructuring. The lookup of the transfer target in the
  same action, and the lookup of login, do test \<^verbatim>\<open>length < 1\<close> first.
\<close>

theorem missing_account_is_type_error:
  "select_accounts_by_id 7 bank_ghost = [] \<and>
   check_balance no_faults bank_ghost = (Inl TypeError, bank_ghost) \<and>
   deposit strict_reads no_faults ''10'' (Fin 10) bank_ghost = (Inl TypeError, bank_ghost) \<and>
   withdraw strict_reads no_faults ''10'' (Fin 10) bank_ghost = (Inl TypeError, bank_ghost) \<and>
   transfer no_faults (Fin 10) 2 bank_ghost = (Inl TypeError, bank_ghost)"
  by (simp add: check_balance_def deposit_def withdraw_def transfer_def bad_amount_def
        store_defs fixture_defs)

section \<open>The transaction log\<close>

text \<open>
  What a command that succeeds appends to the transaction table. A deposit or a withdraw
  appends exactly one row, of its own type and owned by the session's account; its amount
  is what the store reads from the text \<open>amount\<close> as typed. A transfer appends exactly
  two rows: a transfer_out row owned by the sender with the receiver as target, then a
  transfer_in row owned by the receiver with the sender as target, both with the number
  \<open>amountNum\<close> as amount.
\<close>

lemma success_appends_rows:
  "(deposit reads fd amountd nd s = (Inr rowd, sd) \<longrightarrow>
      (\<exists>sess d. session_file s = Some sess \<and> reads amountd = Some d \<and>
         transactions sd = transactions s @
           [\<lparr>txn_id = txn_auto_inc s, txn_account = sess_id sess, txn_kind = Deposit,
             txn_amount = d, txn_target = None\<rparr>])) \<and>
   (withdraw reads fw amountw nw s = (Inr roww, sw) \<longrightarrow>
      (\<exists>sess d. session_file s = Some sess \<and> reads amountw = Some d \<and>
         transactions sw = transactions s @
           [\<lparr>txn_id = txn_auto_inc s, txn_account = sess_id sess, txn_kind = Withdraw,
             txn_amount = d, txn_target = None\<rparr>])) \<and>
   (transfer ft nt to s = (Inr rows, st) \<longrightarrow>
      (\<exists>sess r. session_file s = Some sess \<and> nt = Fin r \<and>
         transactions st = transactions s @
           [\<lparr>txn_id = txn_auto_inc s, txn_account = sess_id sess, txn_kind = TransferOut,
             txn_amount = r, txn_target = Some to\<rparr>,
            \<lparr>txn_id = Suc (txn_auto_inc s), txn_account = to, txn_kind = TransferIn,
             txn_amount = r, txn_target = Some (sess_id sess)\<rparr>]))"
proof (intro conjI impI)
  assume "deposit reads fd amountd nd s = (Inr rowd, sd)"
  from deposit_success [OF this] obtain sess a rest r d where
    f: "session_file s = Some sess" "reads amountd = Some d"
       "select_accounts_by_id (sess_id sess) s = a # rest"
       "sd = add_txn (acc_id a) Deposit d None
               (set_balance (\<lambda>x. acc_id x = sess_id sess) (acc_balance a + r) s)"
    by blast
  from f select_accounts_by_id_hd [OF f(3)]
  show "\<exists>sess d. session_file s = Some sess \<and> reads amountd = Some d \<and>
         transactions sd = transactions s @
           [\<lparr>txn_id = txn_auto_inc s, txn_account = sess_id sess, txn_kind = Deposit,
             txn_amount = d, txn_target = None\<rparr>]"
    by (simp add: transactions_add_txn)
next
  assume "withdraw reads fw amountw nw s = (Inr roww, sw)"
  from withdraw_success [OF this] obtain sess a rest r d where
    f: "session_file s = Some sess" "reads amountw = Some d"
       "select_accounts_by_id (sess_id sess) s = a # rest"
       "sw = add_txn (acc_id a) Withdraw d None
               (set_balance (\<lambda>x. acc_name x = acc_name a) (acc_balance a - r) s)"
    by blast
  from f select_accounts_by_id_hd [OF f(3)]
  show "\<exists>sess d. session_file s = Some sess \<and> reads amountw = Some d \<and>
         transactions sw = transactions s @
           [\<lparr>txn_id = txn_auto_inc s, txn_account = sess_id sess, txn_kind = Withdraw,
             txn_amount = d, txn_target = None\<rparr>]"
    by (simp add: transactions_add_txn)
next
  assume "transfer ft nt to s = (Inr rows, st)"
  from transfer_success [OF this] obtain sess a rest target others r where
    f: "session_file s = Some sess" "nt = Fin r"
       "select_accounts_by_id (sess_id sess) s = a # rest"
       "select_accounts_by_id to s = target # others"
       "st = add_txn (acc_id target) TransferIn r (Some (acc_id a))
                 (set_balance (\<lambda>x. acc_id x = acc_id target) (acc_balance target + r)
                   (add_txn (acc_id a) TransferOut r (Some (acc_id target))
                     (set_balance (\<lambda>x. acc_id x = acc_id a) (acc_balance a - r) s)))"
    by blast
  from f select_accounts_by_id_hd [OF f(3)] select_accounts_by_id_hd [OF f(4)]
  show "\<exists>sess r. session_file s = Some sess \<and> nt = Fin r \<and>
         transactions st = transactions s @
           [\<lparr>txn_id = txn_auto_inc s, txn_account = sess_id sess, txn_kind = TransferOut,
             txn_amount = r, txn_target = Some to\<rparr>,
            \<lparr>txn_id = Suc (txn_auto_inc s), txn_account = to, txn_kind = TransferIn,
             txn_amount = r, txn_target = Some (sess_id sess)\<rparr>]"
    by (simp add: transactions_add_txn)
qed

text \<open>
  On amounts typed as plain decimal digits the three commands succeed, and the rows carry
  the amount: a deposit of 10, a withdraw of 40 and a transfer of 60 to bob by alice.
\<close>

lemma plain_amounts_are_logged:
  "deposit strict_reads no_faults ''10'' (Fin 10) bank_alice =
     (Inr \<lparr>txn_id = 1, txn_account = 1, txn_kind = Deposit, txn_amount = 10,
           txn_target = None\<rparr>,
      bank_alice\<lparr>accounts := [alice\<lparr>acc_balance := 110\<rparr>, bob],
        transactions :=
          [\<lparr>txn_id = 1, txn_account = 1, txn_kind = Deposit, txn_amount = 10,
             txn_target = None\<rparr>],
        txn_auto_inc := 2\<rparr>)"
  "withdraw strict_reads no_faults ''40'' (Fin 40) bank_alice =
     (Inr \<lparr>txn_id = 1, txn_account = 1, txn_kind = Withdraw, txn_amount = 40,
           txn_target = None\<rparr>,
      bank_alice\<lparr>accounts := [alice\<lparr>acc_balance := 60\<rparr>, bob],
        transactions :=
          [\<lparr>txn_id = 1, txn_account = 1, txn_kind = Withdraw, txn_amount = 40,
             txn_target = None\<rparr>],
        txn_auto_inc := 2\<rparr>)"
  "transfer no_faults (Fin 60) 2 bank_alice =
     (Inr ((\<lparr>txn_id = 1, txn_account = 1, txn_kind = TransferOut, txn_amount = 60,
              txn_target = Some 2\<rparr>, ''bob''),
           (\<lparr>txn_id = 2, txn_account = 2, txn_kind = TransferIn, txn_amount = 60,
              txn_target = Some 1\<rparr>, ''alice'')),
      bank_alice\<lparr>accounts := [alice\<lparr>acc_balance := 40\<rparr>, bob\<lparr>acc_balance := 60\<rparr>],
        transactions :=
          [\<lparr>txn_id = 1, txn_account = 1, txn_kind = TransferOut, txn_amount = 60,
             txn_target = Some 2\<rparr>,
           \<lparr>txn_id = 2, txn_account = 2, txn_kind = TransferIn, txn_amount = 60,
             txn_target = Some 1\<rparr>],
        txn_auto_inc := 3\<rparr>)"
  by (simp_all add: deposit_def withdraw_def transfer_def bad_amount_def js_sub_def
        store_defs fixture_defs)


section \<open>Failing writes\<close>

text \<open>
  Claim C2, as the code has it. The actions run their statements one after the other with
  no transaction around them. When a write fails (it throws, or the store refuses the
  value bound to it), the command answers with the store's error and every write before it
  stays: the state is the one before the command only if the first write is the one that
  fails; after that it is the state the earlier writes have produced (balance changed and no row; sender debited, transfer_out row inserted and
  receiver not credited; and so on).
\<close>

theorem failed_write_keeps_earlier_writes:
  assumes "session_file s = Some sess" and "0 < r"
    and "select_accounts_by_id (sess_id sess) s = a # rest"
  shows
    "(\<not> fd 0 \<longrightarrow>
        (fd 1 \<or> fd 2 \<or> reads amount = None \<longrightarrow>
           fst (deposit reads fd amount (Fin r) s) = Inl StoreError) \<and>
        snd (deposit reads fd amount (Fin r) s) =
          (if fd 1 then s
           else let s1 = set_balance (\<lambda>x. acc_id x = sess_id sess) (acc_balance a + r) s in
             if fd 2 then s1
             else (case reads amount of
                     None \<Rightarrow> s1
                   | Some d \<Rightarrow> add_txn (sess_id sess) Deposit d None s1))) \<and>
     (\<not> fw 0 \<and> r \<le> acc_balance a \<longrightarrow>
        (fw 1 \<or> fw 2 \<or> reads amount = None \<longrightarrow>
           fst (withdraw reads fw amount (Fin r) s) = Inl StoreError) \<and>
        snd (withdraw reads fw amount (Fin r) s) =
          (if fw 1 then s
           else let s1 = set_balance (\<lambda>x. acc_name x = acc_name a) (acc_balance a - r) s in
             if fw 2 then s1
             else (case reads amount of
                     None \<Rightarrow> s1
                   | Some d \<Rightarrow> add_txn (sess_id sess) Withdraw d None s1))) \<and>
     (\<not> ft 0 \<and> \<not> ft 1 \<and> r \<le> acc_balance a \<and>
      select_accounts_by_id to s = target # others \<longrightarrow>
        (ft 2 \<or> ft 3 \<or> ft 4 \<or> ft 5 \<longrightarrow> fst (transfer ft (Fin r) to s) = Inl StoreError) \<and>
        snd (transfer ft (Fin r) to s) =
          (if ft 2 then s
           else let s1 = set_balance (\<lambda>x. acc_id x = sess_id sess) (acc_balance a - r) s in
             if ft 3 then s1
             else let s2 = add_txn (sess_id sess) TransferOut r (Some to) s1 in
               if ft 4 then s2
               else let s3 = set_balance (\<lambda>x. acc_id x = to) (acc_balance target + r) s2 in
                 if ft 5 then s3
                 else add_txn to TransferIn r (Some (sess_id sess)) s3))"
proof (intro conjI impI)
  assume "\<not> fd 0"
  show "snd (deposit reads fd amount (Fin r) s) =
          (if fd 1 then s
           else let s1 = set_balance (\<lambda>x. acc_id x = sess_id sess) (acc_balance a + r) s in
             if fd 2 then s1
             else (case reads amount of
                     None \<Rightarrow> s1
                   | Some d \<Rightarrow> add_txn (sess_id sess) Deposit d None s1))"
    by (rule deposit_state [where fails = fd and reads = reads and amount = amount, OF assms(1,2) \<open>\<not> fd 0\<close> assms(3)])
  assume "fd 1 \<or> fd 2 \<or> reads amount = None"
  with deposit_outcome [where fails = fd and reads = reads and amount = amount, OF assms(1,2) \<open>\<not> fd 0\<close> assms(3)]
  show "fst (deposit reads fd amount (Fin r) s) = Inl StoreError"
    by (simp split: if_splits)
next
  assume h: "\<not> fw 0 \<and> r \<le> acc_balance a"
  show "snd (withdraw reads fw amount (Fin r) s) =
          (if fw 1 then s
           else let s1 = set_balance (\<lambda>x. acc_name x = acc_name a) (acc_balance a - r) s in
             if fw 2 then s1
             else (case reads amount of
                     None \<Rightarrow> s1
                   | Some d \<Rightarrow> add_txn (sess_id sess) Withdraw d None s1))"
    using h by (intro withdraw_state [where fails = fw and reads = reads and amount = amount, OF assms(1,2) _ assms(3)]) simp_all
  assume "fw 1 \<or> fw 2 \<or> reads amount = None"
  with withdraw_outcome [where fails = fw and reads = reads and amount = amount, OF assms(1,2) _ assms(3)] h
  show "fst (withdraw reads fw amount (Fin r) s) = Inl StoreError"
    by (simp split: if_splits)
next
  assume h: "\<not> ft 0 \<and> \<not> ft 1 \<and> r \<le> acc_balance a \<and>
      select_accounts_by_id to s = target # others"
  show "snd (transfer ft (Fin r) to s) =
          (if ft 2 then s
           else let s1 = set_balance (\<lambda>x. acc_id x = sess_id sess) (acc_balance a - r) s in
             if ft 3 then s1
             else let s2 = add_txn (sess_id sess) TransferOut r (Some to) s1 in
               if ft 4 then s2
               else let s3 = set_balance (\<lambda>x. acc_id x = to) (acc_balance target + r) s2 in
                 if ft 5 then s3
                 else add_txn to TransferIn r (Some (sess_id sess)) s3)"
    using h
    by (intro transfer_state [where fails = ft and target = target and others = others,
          OF assms(1,2) _ _ _ assms(3)]) simp_all
  assume "ft 2 \<or> ft 3 \<or> ft 4 \<or> ft 5"
  with transfer_outcome [where fails = ft and to = to and target = target and others = others,
         OF assms(1,2) _ _ _ assms(3)] h
  show "fst (transfer ft (Fin r) to s) = Inl StoreError"
    by (simp split: if_splits)
qed

theorem failed_write_keeps_earlier_writes_witness:
  "snd (deposit strict_reads (fail_at 2) ''10'' (Fin 10) bank_alice) =
     bank_alice\<lparr>accounts := [alice\<lparr>acc_balance := 110\<rparr>, bob]\<rparr> \<and>
   snd (withdraw strict_reads (fail_at 2) ''40'' (Fin 40) bank_alice) =
     bank_alice\<lparr>accounts := [alice\<lparr>acc_balance := 60\<rparr>, bob]\<rparr> \<and>
   snd (transfer (fail_at 4) (Fin 60) 2 bank_alice) =
     bank_alice\<lparr>accounts := [alice\<lparr>acc_balance := 40\<rparr>, bob],
        transactions :=
          [\<lparr>txn_id = 1, txn_account = 1, txn_kind = TransferOut, txn_amount = 60,
             txn_target = Some 2\<rparr>],
        txn_auto_inc := 2\<rparr>"
proof -
  have sess: "session_file bank_alice = Some \<lparr>sess_id = 1, sess_name = ''alice''\<rparr>"
    by (simp add: fixture_defs)
  have a: "select_accounts_by_id (sess_id \<lparr>sess_id = 1, sess_name = ''alice''\<rparr>) bank_alice
             = alice # []"
    by (simp add: store_defs fixture_defs)
  have t: "select_accounts_by_id 2 bank_alice = bob # []"
    by (simp add: store_defs fixture_defs)
  have d: "snd (deposit strict_reads (fail_at 2) ''10'' (Fin 10) bank_alice) =
      bank_alice\<lparr>accounts := [alice\<lparr>acc_balance := 110\<rparr>, bob]\<rparr>"
    using failed_write_keeps_earlier_writes
      [OF sess _ a, where r = 10 and fd = "fail_at 2" and reads = strict_reads
         and amount = "''10''", THEN conjunct1]
    by (simp add: store_defs fixture_defs)
  have w: "snd (withdraw strict_reads (fail_at 2) ''40'' (Fin 40) bank_alice) =
      bank_alice\<lparr>accounts := [alice\<lparr>acc_balance := 60\<rparr>, bob]\<rparr>"
    using failed_write_keeps_earlier_writes
      [OF sess _ a, where r = 40 and fw = "fail_at 2" and reads = strict_reads
         and amount = "''40''", THEN conjunct2, THEN conjunct1]
    by (simp add: store_defs fixture_defs)
  have x: "snd (transfer (fail_at 4) (Fin 60) 2 bank_alice) =
     bank_alice\<lparr>accounts := [alice\<lparr>acc_balance := 40\<rparr>, bob],
        transactions :=
          [\<lparr>txn_id = 1, txn_account = 1, txn_kind = TransferOut, txn_amount = 60,
             txn_target = Some 2\<rparr>],
        txn_auto_inc := 2\<rparr>"
    using failed_write_keeps_earlier_writes
      [OF sess _ a, where r = 60 and ft = "fail_at 4" and to = 2 and target = bob
         and others = "[]", THEN conjunct2, THEN conjunct2] t
    by (simp add: store_defs fixture_defs)
  from d w x show ?thesis by simp
qed

text \<open>
  Claim C2 as stated (every write already performed is rolled back) fails: when the
  update of the receiver's balance throws, alice has been debited 60 and her transfer_out
  row is in the log, bob has received nothing, and that is the state the command leaves.
\<close>

theorem transfer_left_half_done:
  "transfer (fail_at 4) (Fin 60) 2 bank_alice =
     (Inl StoreError,
      bank_alice\<lparr>accounts := [alice\<lparr>acc_balance := 40\<rparr>, bob],
        transactions :=
          [\<lparr>txn_id = 1, txn_account = 1, txn_kind = TransferOut, txn_amount = 60,
             txn_target = Some 2\<rparr>],
        txn_auto_inc := 2\<rparr>) \<and>
   snd (transfer (fail_at 4) (Fin 60) 2 bank_alice) \<noteq> bank_alice"
  by (simp add: transfer_def bad_amount_def js_sub_def store_defs fixture_defs)

section \<open>Balances\<close>

text \<open>
  Between two different accounts a successful transfer moves the amount and keeps the sum.
\<close>

lemma transfer_conserves_distinct:
  assumes ok: "transfer fails n to s = (Inr rows, s')"
    and sess: "session_file s = Some sess" and diff: "to \<noteq> sess_id sess"
  shows "\<exists>b c r. n = Fin r \<and>
           balance_of (sess_id sess) s = Some b \<and> balance_of to s = Some c \<and>
           balance_of (sess_id sess) s' = Some (b - r) \<and> balance_of to s' = Some (c + r)"
proof -
  from transfer_success [OF ok] sess obtain a rest target others r where
    n: "n = Fin r"
    and a: "select_accounts_by_id (sess_id sess) s = a # rest"
    and t: "select_accounts_by_id to s = target # others"
    and s': "s' = add_txn (acc_id target) TransferIn r (Some (acc_id a))
                 (set_balance (\<lambda>x. acc_id x = acc_id target) (acc_balance target + r)
                   (add_txn (acc_id a) TransferOut r (Some (acc_id target))
                     (set_balance (\<lambda>x. acc_id x = acc_id a) (acc_balance a - r) s)))"
    by auto
  have ids: "acc_id a = sess_id sess" "acc_id target = to"
    using select_accounts_by_id_hd [OF a] select_accounts_by_id_hd [OF t] by auto
  have "balance_of (sess_id sess) s' = Some (acc_balance a - r)"
    using diff by (simp add: s' ids balance_of_set_balance balance_of_hd [OF a])
  moreover have "balance_of to s' = Some (acc_balance target + r)"
    using diff by (simp add: s' ids balance_of_set_balance balance_of_hd [OF t])
  ultimately show ?thesis
    using n balance_of_hd [OF a] balance_of_hd [OF t] by simp
qed

text \<open>
  A successful transfer to the session's own account: the target's balance is read before
  the debit and credited after it, so the account ends with the amount added.
\<close>

lemma self_transfer_adds_amount:
  assumes ok: "transfer fails n to s = (Inr rows, s')"
    and sess: "session_file s = Some sess" and same: "to = sess_id sess"
  shows "\<exists>b r. n = Fin r \<and> 0 < r \<and> balance_of to s = Some b \<and> balance_of to s' = Some (b + r)"
proof -
  from transfer_success [OF ok] sess obtain a rest target others r where
    n: "n = Fin r" "0 < r"
    and a: "select_accounts_by_id (sess_id sess) s = a # rest"
    and t: "select_accounts_by_id to s = target # others"
    and s': "s' = add_txn (acc_id target) TransferIn r (Some (acc_id a))
                 (set_balance (\<lambda>x. acc_id x = acc_id target) (acc_balance target + r)
                   (add_txn (acc_id a) TransferOut r (Some (acc_id target))
                     (set_balance (\<lambda>x. acc_id x = acc_id a) (acc_balance a - r) s)))"
    by auto
  have ids: "acc_id a = to" "acc_id target = to"
    using select_accounts_by_id_hd [OF a] select_accounts_by_id_hd [OF t] same by auto
  have "balance_of to s' = Some (acc_balance target + r)"
    by (simp add: s' ids balance_of_set_balance balance_of_hd [OF t])
  then show ?thesis
    using n balance_of_hd [OF t] by simp
qed

text \<open>
  Claim C3 (a valid transfer keeps the sum of the sender's and the receiver's balance, also
  when the target is the session's own account). The program breaks it in that case:
  alice, with 100, transfers 60 to herself; the transfer succeeds with both rows and her
  balance is 160.
\<close>

theorem self_transfer_mints_money:
  "balance_of 1 bank_alice = Some 100 \<and>
   transfer no_faults (Fin 60) 1 bank_alice =
     (Inr ((\<lparr>txn_id = 1, txn_account = 1, txn_kind = TransferOut, txn_amount = 60,
              txn_target = Some 1\<rparr>, ''alice''),
           (\<lparr>txn_id = 2, txn_account = 1, txn_kind = TransferIn, txn_amount = 60,
              txn_target = Some 1\<rparr>, ''alice'')),
      bank_alice\<lparr>accounts := [alice\<lparr>acc_balance := 160\<rparr>, bob],
        transactions :=
          [\<lparr>txn_id = 1, txn_account = 1, txn_kind = TransferOut, txn_amount = 60,
             txn_target = Some 1\<rparr>,
           \<lparr>txn_id = 2, txn_account = 1, txn_kind = TransferIn, txn_amount = 60,
             txn_target = Some 1\<rparr>],
        txn_auto_inc := 3\<rparr>) \<and>
   balance_of 1 (snd (transfer no_faults (Fin 60) 1 bank_alice)) = Some 160"
  by (simp add: transfer_def bad_amount_def js_sub_def balance_of_def store_defs fixture_defs)

text \<open>
  The action \<^verbatim>\<open>register\<close> inserts the account whether or not the name is taken, and a
  successful withdraw rewrites the balance of every account that carries the name of the
  session's account.
\<close>

lemma register_ignores_existing_names:
  "pin_format_ok pin \<Longrightarrow> \<not> fails 0 \<Longrightarrow>
     register hash fails name (Some pin) s = (Inr (), add_account name (hash pin) 0 s)"
  by (simp add: register_def)

lemma withdraw_accounts:
  assumes "withdraw reads fails amount n s = (Inr row, s')"
  shows "\<exists>sess a rest r. session_file s = Some sess \<and> n = Fin r \<and>
           select_accounts_by_id (sess_id sess) s = a # rest \<and>
           accounts s' =
             map (\<lambda>x. if acc_name x = acc_name a then x\<lparr>acc_balance := acc_balance a - r\<rparr> else x)
               (accounts s)"
proof -
  from withdraw_success [OF assms] obtain sess a rest r d where
    f: "session_file s = Some sess" "n = Fin r"
       "select_accounts_by_id (sess_id sess) s = a # rest"
       "s' = add_txn (acc_id a) Withdraw d None
               (set_balance (\<lambda>x. acc_name x = acc_name a) (acc_balance a - r) s)"
    by blast
  then show ?thesis
    by (simp add: set_balance_def)
qed

text \<open>
  Claim C10 (a successful withdraw leaves the balance of every other account unchanged,
  also when two accounts share a name). The program breaks it: the update is keyed on the
  name, while the read before it and the update of deposit are keyed on the id. With two
  accounts named sam, 100 on account 1 and 500 on account 2, a withdraw of 40 by account 1
  leaves 60 on both.
\<close>

theorem withdraw_overwrites_namesake:
  "balance_of 2 bank_twins = Some 500 \<and>
   withdraw strict_reads no_faults ''40'' (Fin 40) bank_twins =
     (Inr \<lparr>txn_id = 1, txn_account = 1, txn_kind = Withdraw, txn_amount = 40,
           txn_target = None\<rparr>,
      bank_twins\<lparr>accounts :=
          [\<lparr>acc_id = 1, acc_name = ''sam'', acc_pin = ''bcrypt:111111'', acc_balance = 60\<rparr>,
           \<lparr>acc_id = 2, acc_name = ''sam'', acc_pin = ''bcrypt:222222'', acc_balance = 60\<rparr>],
        transactions :=
          [\<lparr>txn_id = 1, txn_account = 1, txn_kind = Withdraw, txn_amount = 40,
             txn_target = None\<rparr>],
        txn_auto_inc := 2\<rparr>) \<and>
   balance_of 2 (snd (withdraw strict_reads no_faults ''40'' (Fin 40) bank_twins)) = Some 60"
  by (simp add: withdraw_def bad_amount_def js_sub_def balance_of_def store_defs fixture_defs)

subsection \<open>Non-negative balances\<close>

lemma nonneg_set_balance:
  "balances_nonneg s \<Longrightarrow> 0 \<le> v \<Longrightarrow> balances_nonneg (set_balance P v s)"
  by (auto simp: balances_nonneg_def set_balance_def list_all_iff)

lemma nonneg_add_txn [simp]:
  "balances_nonneg (add_txn a k v t s) = balances_nonneg s"
  by (simp add: balances_nonneg_def)

lemma nonneg_hd:
  "select_accounts_by_id i s = a # rest \<Longrightarrow> balances_nonneg s \<Longrightarrow> 0 \<le> acc_balance a"
  using select_accounts_by_id_hd [of i s a rest]
  by (simp add: balances_nonneg_def list_all_iff)

lemma deposit_nonneg:
  assumes "balances_nonneg s"
  shows "balances_nonneg (snd (deposit reads fails amount n s))"
proof (cases n)
  case (Fin r)
  with assms show ?thesis
    by (auto simp: deposit_def bad_amount_def db_update_balance_def db_insert_txn_def Let_def
          nonneg_set_balance dest: nonneg_hd split: option.splits list.splits)
qed (use assms in \<open>auto simp: deposit_def bad_amount_def db_update_balance_def Let_def
        split: option.splits list.splits\<close>)

lemma withdraw_nonneg:
  assumes "balances_nonneg s"
  shows "balances_nonneg (snd (withdraw reads fails amount n s))"
proof (cases n)
  case (Fin r)
  with assms show ?thesis
    by (auto simp: withdraw_def bad_amount_def js_sub_def db_update_balance_def
          db_insert_txn_def Let_def nonneg_set_balance split: option.splits list.splits)
qed (use assms in \<open>auto simp: withdraw_def bad_amount_def js_sub_def db_update_balance_def
        Let_def split: option.splits list.splits\<close>)

lemma transfer_nonneg:
  assumes "balances_nonneg s"
  shows "balances_nonneg (snd (transfer fails n to s))"
proof (cases n)
  case (Fin r)
  with assms show ?thesis
    by (auto simp: transfer_def bad_amount_def js_sub_def db_update_balance_def
          db_insert_txn_def Let_def nonneg_set_balance dest: nonneg_hd
          split: option.splits list.splits)
qed (use assms in \<open>auto simp: transfer_def bad_amount_def js_sub_def db_update_balance_def
        Let_def split: option.splits list.splits\<close>)

lemma login_accounts: "accounts (snd (login verify fails name pin_opt s)) = accounts s"
  by (simp add: login_def Let_def split: option.split list.split)

lemma check_balance_state: "snd (check_balance fails s) = s"
  by (simp add: check_balance_def split: option.split list.split)

lemma register_nonneg:
  "balances_nonneg s \<Longrightarrow> balances_nonneg (snd (register hash fails name pin_opt s))"
  by (simp add: register_def balances_nonneg_def add_account_def split: option.split)

lemma exec_nonneg:
  assumes "balances_nonneg s"
  shows "balances_nonneg (exec hash verify reads c s)"
proof -
  have start: "balances_nonneg (module_load s)"
    using assms by (simp add: balances_nonneg_def module_load_def)
  show ?thesis
  proof (cases "snd c")
    case (CmdLogin name pin_opt)
    with start show ?thesis
      by (simp add: exec_def balances_nonneg_def login_accounts)
  qed (use start in \<open>simp_all add: exec_def register_nonneg check_balance_state
         deposit_nonneg withdraw_nonneg transfer_nonneg\<close>)
qed

lemma run_nonneg: "balances_nonneg s \<Longrightarrow> balances_nonneg (run hash verify reads cs s)"
  by (induction cs arbitrary: s) (simp_all add: exec_nonneg)

text \<open>
  Claim C4. Starting from a store in which no balance is negative, after every command of
  any sequence of commands (deposits, withdraws and transfers, with registrations, logins
  and balance inquiries between them, each with any of its statements failing) no balance
  is negative.
\<close>

theorem balances_never_negative:
  "balances_nonneg s \<Longrightarrow> k \<le> length cs \<Longrightarrow>
     balances_nonneg (run hash verify reads (take k cs) s)"
  by (rule run_nonneg)

theorem balances_never_negative_witness:
  "balances_nonneg bank_alice \<and>
   balances_nonneg
     (run hash0 verify0 strict_reads
        (take 2 [(no_faults, CmdWithdraw ''150'' (Fin 150)), (no_faults, CmdWithdraw ''40'' (Fin 40)),
                 (fail_at 4, CmdTransfer (Fin 60) 2), (no_faults, CmdLogin ''bob'' (Some ''x'')),
                 (no_faults, CmdWithdraw ''60'' (Fin 60))]) bank_alice) \<and>
   balances_nonneg
     (run hash0 verify0 strict_reads
        (take 5 [(no_faults, CmdWithdraw ''150'' (Fin 150)), (no_faults, CmdWithdraw ''40'' (Fin 40)),
                 (fail_at 4, CmdTransfer (Fin 60) 2), (no_faults, CmdLogin ''bob'' (Some ''x'')),
                 (no_faults, CmdWithdraw ''60'' (Fin 60))]) bank_alice)"
proof -
  have init: "balances_nonneg bank_alice"
    by (simp add: balances_nonneg_def fixture_defs)
  from init
    balances_never_negative [OF init, of 2
      "[(no_faults, CmdWithdraw ''150'' (Fin 150)), (no_faults, CmdWithdraw ''40'' (Fin 40)),
        (fail_at 4, CmdTransfer (Fin 60) 2), (no_faults, CmdLogin ''bob'' (Some ''x'')),
        (no_faults, CmdWithdraw ''60'' (Fin 60))]" hash0 verify0 strict_reads]
    balances_never_negative [OF init, of 5
      "[(no_faults, CmdWithdraw ''150'' (Fin 150)), (no_faults, CmdWithdraw ''40'' (Fin 40)),
        (fail_at 4, CmdTransfer (Fin 60) 2), (no_faults, CmdLogin ''bob'' (Some ''x'')),
        (no_faults, CmdWithdraw ''60'' (Fin 60))]" hash0 verify0 strict_reads]
  show ?thesis by simp
qed

end
